theory Spec2Isabelle
  imports Main "HOL-Library.Word"
begin

unbundle bit_operations_syntax

section \<open>Privilege separation BPF initiator (src/privsep-bpf.c)\<close>

subsection \<open>C types\<close>

type_synonym byte = "8 word"
type_synonym u8 = "8 word"
type_synonym u16 = "16 word"
type_synonym u32 = "32 word"

text \<open>\<^verbatim>\<open>size_t\<close> is taken at 64 bits (LP64); \<^verbatim>\<open>-\<close> and \<^verbatim>\<open>+\<close> on it wrap around as in C.
  \<^verbatim>\<open>ssize_t\<close> and \<^verbatim>\<open>pid_t\<close> results are only compared with -1, 0 and 1 and are kept
  as integers.\<close>

type_synonym size_t = "64 word"
type_synonym ssize_t = int
type_synonym pid_t = int

text \<open>A pointer is an address, \<open>None\<close> for \<^verbatim>\<open>NULL\<close>.\<close>

type_synonym ptr = "nat option"

text \<open>The values of \<^verbatim>\<open>errno\<close> this file sets or tests; every other value is \<open>Errno n\<close>.\<close>

datatype errno = EINVAL | ENOTSUP | ECONNRESET | Errno nat

text \<open>\<^verbatim>\<open>struct iovec\<close>: \<open>iov_base\<close> is the memory found at the pointer, \<open>iov_len\<close> the
  length the sender announces for it. \<^verbatim>\<open>struct msghdr\<close> with its first vector.\<close>

record iovec =
  iov_base :: "byte list"
  iov_len :: size_t

record msghdr =
  msg_iov :: iovec
  msg_iovlen :: nat

text \<open>\<^verbatim>\<open>struct interface\<close>, with the members this file reads or writes: \<^verbatim>\<open>name\<close>,
  \<^verbatim>\<open>index\<close>, \<^verbatim>\<open>ctx\<close>, \<^verbatim>\<open>options\<close> and \<^verbatim>\<open>if_data\<close>.\<close>

record interface =
  if_name :: string
  if_index :: u32
  if_ctx :: ptr
  if_options :: ptr
  if_data :: "ptr list"

text \<open>\<^verbatim>\<open>struct ps_id\<close> (the routing key) and \<^verbatim>\<open>struct ps_msghdr\<close>. The address member
  \<^verbatim>\<open>psi_addr.psa_in_addr\<close> is an IPv4 address, 0 being \<^verbatim>\<open>INADDR_ANY\<close>.\<close>

record ps_id =
  psi_addr :: u32
  psi_ifindex :: u32
  psi_cmd :: u8

record ps_msghdr =
  ps_cmd :: u16
  ps_id :: ps_id

subsection \<open>Declarations of privsep.h, bpf.h and the build\<close>

text \<open>The headers are not part of the translated file. The command bits and tags they
  define, the end-of-stream flag, the maximal frame length, the size and layout of
  \<^verbatim>\<open>struct interface\<close>, the byte order of the machine and whether the build defines
  \<^verbatim>\<open>ARP\<close> are parameters of every function below.\<close>

datatype endian = Little_endian | Big_endian

record ps_build =
  ARP :: bool
  PS_START :: u16
  PS_STOP :: u16
  PS_BPF_ARP :: u16
  PS_BPF_BOOTP :: u16
  BPF_EOF :: u32
  FRAMELEN_MAX :: nat
  sizeof_interface :: size_t
  interface_of_bytes :: "byte list \<Rightarrow> interface"
  byte_order :: endian

text \<open>The tags carry none of the two lifecycle bits, and the two bits differ: a command
  code is a tag combined bitwise with \<^verbatim>\<open>PS_START\<close> or \<^verbatim>\<open>PS_STOP\<close>.\<close>

definition ps_build_ok :: "ps_build \<Rightarrow> bool" where
  "ps_build_ok c =
     (PS_BPF_ARP c AND (PS_START c OR PS_STOP c) = 0 \<and>
      PS_BPF_BOOTP c AND (PS_START c OR PS_STOP c) = 0 \<and>
      PS_STOP c AND PS_START c = 0)"

text \<open>The buffer of the capture loop, \<^verbatim>\<open>sizeof(bpf->bpf_flags) + FRAMELEN_MAX\<close> bytes, has a
  size that \<^verbatim>\<open>size_t\<close> holds.\<close>

definition buf_fits :: "ps_build \<Rightarrow> bool" where
  "buf_fits c = (4 + FRAMELEN_MAX c < 2 ^ 64)"

text \<open>The values of dhcpcd's headers on a little-endian LP64 machine, for evaluation.\<close>

definition dhcpcd_build :: ps_build where
  "dhcpcd_build =
     \<lparr>ARP = True, PS_START = 0x4000, PS_STOP = 0x8000,
      PS_BPF_ARP = 0x0005, PS_BPF_BOOTP = 0x0004, BPF_EOF = 0x01,
      FRAMELEN_MAX = 2048, sizeof_interface = 8,
      interface_of_bytes = (\<lambda>bs. \<lparr>if_name = map (\<lambda>b. char_of (unat b)) (drop 4 bs),
         if_index = word_of_nat (unat (hd bs)), if_ctx = Some 1, if_options = Some 2,
         if_data = [Some 3]\<rparr>),
      byte_order = Little_endian\<rparr>"

subsection \<open>The flags prefix of a frame envelope\<close>

text \<open>\<^verbatim>\<open>memcpy(buf, &bpf->bpf_flags, sizeof(bpf->bpf_flags))\<close> stores the four bytes of an
  \<^verbatim>\<open>unsigned int\<close> in the machine's byte order, and
  \<^verbatim>\<open>memcpy(&bpf_flags, bpf, sizeof(bpf_flags))\<close> reads them back.\<close>

definition sizeof_bpf_flags :: nat where
  "sizeof_bpf_flags = 4"

definition le_bytes :: "u32 \<Rightarrow> byte list" where
  "le_bytes w = [ucast w, ucast (drop_bit 8 w), ucast (drop_bit 16 w), ucast (drop_bit 24 w)]"

fun le_word :: "byte list \<Rightarrow> u32" where
  "le_word [] = 0"
| "le_word (b # bs) = ucast b OR push_bit 8 (le_word bs)"

definition store_flags :: "endian \<Rightarrow> u32 \<Rightarrow> byte list" where
  "store_flags e w = (case e of Little_endian \<Rightarrow> le_bytes w | Big_endian \<Rightarrow> rev (le_bytes w))"

text \<open>The read takes the first four bytes at the pointer whatever length the message
  announces; bytes the memory does not have count as absent high-order bytes.\<close>

definition load_flags :: "endian \<Rightarrow> byte list \<Rightarrow> u32" where
  "load_flags e bs =
     (case e of Little_endian \<Rightarrow> le_word (take sizeof_bpf_flags bs)
      | Big_endian \<Rightarrow> le_word (rev (take sizeof_bpf_flags bs)))"

subsection \<open>Worker records and the context\<close>

text \<open>\<^verbatim>\<open>struct bpf\<close>, the raw handle of a worker: its descriptor and its flags.\<close>

record bpf =
  bpf_fd :: int
  bpf_flags :: u32

datatype bpf_filter = bpf_arp | bpf_bootp

text \<open>\<^verbatim>\<open>struct ps_process\<close>, a worker record, with the members this file uses.\<close>

record ps_process =
  psp_id :: ps_id
  psp_ctx :: ptr
  psp_pid :: pid_t
  psp_fd :: int
  psp_work_fd :: int
  psp_ifname :: string
  psp_proto :: u16
  psp_protostr :: string
  psp_filter :: "bpf_filter option"
  psp_ifp :: interface
  psp_bpf :: "bpf option"

text \<open>\<^verbatim>\<open>struct dhcpcd_ctx\<close>: its own address, the interfaces, the worker records of
  \<^verbatim>\<open>ctx->ps_processes\<close> in queue order, the two channel descriptors, and whether
  \<^verbatim>\<open>eloop_exit\<close> has been requested and with which status.\<close>

record dhcpcd_ctx =
  ctx_addr :: nat
  ifaces :: "interface list"
  ps_processes :: "ps_process list"
  ps_root_fd :: int
  ps_data_fd :: int
  eloop_exit :: "int option"

subsection \<open>ps_bpf_dispatch\<close>

text \<open>The protocol handlers \<^verbatim>\<open>arp_packet\<close> and \<^verbatim>\<open>dhcp_packet\<close> belong to other files. A
  call of one is recorded with its arguments: the interface found, the frame pointer (the
  memory found there), the frame length and the flags.\<close>

datatype packet_handler = arp_packet | dhcp_packet

record handler_call =
  hc_handler :: packet_handler
  hc_ifp :: "interface option"
  hc_data :: "byte list"
  hc_len :: size_t
  hc_flags :: u32

text \<open>Modelled from the spec: \<^verbatim>\<open>if_findindex\<close> (if.c) is missing; the spec has the
  dispatcher "resolve the target interface by index from the key". The first interface
  with the index, \<^verbatim>\<open>NULL\<close> when there is none.\<close>

definition if_findindex :: "interface list \<Rightarrow> u32 \<Rightarrow> interface option" where
  "if_findindex ifs idx = find (\<lambda>i. if_index i = idx) ifs"

text \<open>The result of a call: the value returned and the \<^verbatim>\<open>errno\<close> the function itself
  sets, if it sets one.\<close>

type_synonym result = "ssize_t \<times> errno option"

text \<open>Lines 277-309. The function reads the context and writes to nothing but its
  locals: besides the result, all it does is the call of a handler, if it makes one.\<close>

definition ps_bpf_dispatch ::
  "ps_build \<Rightarrow> dhcpcd_ctx \<Rightarrow> ps_msghdr \<Rightarrow> msghdr \<Rightarrow> result \<times> handler_call option" where
  "ps_bpf_dispatch c ctx psm msg =
     (let iov = msg_iov msg;
          ifp = if_findindex (ifaces ctx) (psi_ifindex (ps_id psm));
          bpf = iov_base iov;
          bpf_len = iov_len iov;
          bpf_flags = load_flags (byte_order c) bpf;
          bpf = drop sizeof_bpf_flags bpf;
          bpf_len = bpf_len - word_of_nat sizeof_bpf_flags
      in if ARP c \<and> ps_cmd psm = PS_BPF_ARP c
         then ((1, None), Some \<lparr>hc_handler = arp_packet, hc_ifp = ifp, hc_data = bpf,
                 hc_len = bpf_len, hc_flags = bpf_flags\<rparr>)
         else if ps_cmd psm = PS_BPF_BOOTP c
         then ((1, None), Some \<lparr>hc_handler = dhcp_packet, hc_ifp = ifp, hc_data = bpf,
                 hc_len = bpf_len, hc_flags = bpf_flags\<rparr>)
         else ((-1, Some ENOTSUP), None))"

subsection \<open>Messages to the transport\<close>

text \<open>\<^verbatim>\<open>ps_sendpsmdata\<close> belongs to privsep.c. A call of it is recorded with its arguments:
  the descriptor, the header, the data pointer (the memory found there) and the length.\<close>

record psm_send =
  sent_fd :: int
  sent_psm :: ps_msghdr
  sent_data :: "byte list"
  sent_len :: size_t

subsection \<open>ps_bpf_recvbpf, the capture loop\<close>

text \<open>What the worker's surroundings answer during one run of the loop. \<open>bpf_read env k\<close> is
  the \<open>k\<close>-th call of \<^verbatim>\<open>bpf_read\<close>: the value returned, the bytes it stored at the pointer
  it was given (as many as the value says, when that is positive) and \<^verbatim>\<open>bpf->bpf_flags\<close> as
  the call leaves it. \<open>ps_sendpsmdata env k\<close> is the \<open>k\<close>-th call of \<^verbatim>\<open>ps_sendpsmdata\<close>: the
  value returned and \<^verbatim>\<open>errno\<close> after it. Every pass of the loop makes one read and, unless it
  breaks after the read, one send, so pass \<open>k\<close> (from 0) makes the \<open>k\<close>-th call of each.\<close>

record capture_env =
  bpf_read :: "nat \<Rightarrow> ssize_t \<times> byte list \<times> u32"
  ps_sendpsmdata :: "nat \<Rightarrow> ssize_t \<times> errno"

text \<open>The state the loop works on: \<^verbatim>\<open>bpf->bpf_flags\<close>, the calls of \<^verbatim>\<open>ps_sendpsmdata\<close> made
  so far, oldest first, and the calls of \<^verbatim>\<open>logerr\<close>.\<close>

record capture =
  cap_flags :: u32
  cap_sent :: "psm_send list"
  cap_log :: "string list"

text \<open>Lines 68-71 and 84-86: the header of every message, and the envelope built in
  \<^verbatim>\<open>buf\<close>: the flags, then the frame, sent with the frame length plus the size of the
  flags.\<close>

definition recvbpf_psm :: "ps_process \<Rightarrow> ps_msghdr" where
  "recvbpf_psm psp = \<lparr>ps_cmd = ucast (psi_cmd (psp_id psp)), ps_id = psp_id psp\<rparr>"

definition recvbpf_send ::
  "ps_build \<Rightarrow> dhcpcd_ctx \<Rightarrow> ps_process \<Rightarrow> u32 \<Rightarrow> byte list \<Rightarrow> ssize_t \<Rightarrow> psm_send" where
  "recvbpf_send c ctx psp flags data len =
     \<lparr>sent_fd = ps_data_fd ctx, sent_psm = recvbpf_psm psp,
      sent_data = store_flags (byte_order c) flags @ data,
      sent_len = word_of_int len + word_of_nat sizeof_bpf_flags\<rparr>"

text \<open>Lines 76-91. The loop has no bound of its own: a handle that never reports the end
  keeps it running, and then there is no result.\<close>

partial_function (option) recvbpf_loop ::
  "ps_build \<Rightarrow> capture_env \<Rightarrow> dhcpcd_ctx \<Rightarrow> ps_process \<Rightarrow> nat \<Rightarrow> capture \<Rightarrow> capture option" where
  "recvbpf_loop c env ctx psp k st =
     (if cap_flags st AND BPF_EOF c \<noteq> 0 then Some st
      else
        let len = fst (bpf_read env k);
            data = fst (snd (bpf_read env k));
            st = st\<lparr>cap_flags := snd (snd (bpf_read env k))\<rparr>;
            st = (if len = -1 then st\<lparr>cap_log := cap_log st @ [''ps_bpf_recvbpf'']\<rparr> else st)
        in if len = -1 \<or> len = 0 then Some st
           else
             let st = st\<lparr>cap_sent := cap_sent st @ [recvbpf_send c ctx psp (cap_flags st) data len]\<rparr>;
                 len = fst (ps_sendpsmdata env k);
                 errno = snd (ps_sendpsmdata env k);
                 st = (if len = -1 \<and> errno \<noteq> ECONNRESET
                       then st\<lparr>cap_log := cap_log st @ [''ps_bpf_recvbpf'']\<rparr> else st)
             in if len = -1 \<or> len = 0 then Some st
                else recvbpf_loop c env ctx psp (Suc k) st)"

text \<open>Lines 61-92. \<open>b\<close> is the handle \<^verbatim>\<open>psp->psp_bpf\<close>, which \<^verbatim>\<open>ps_bpf_start_bpf\<close> has opened
  before it registers this callback; \<open>ctx\<close> is \<^verbatim>\<open>psp->psp_ctx\<close>.\<close>

definition ps_bpf_recvbpf ::
  "ps_build \<Rightarrow> capture_env \<Rightarrow> dhcpcd_ctx \<Rightarrow> ps_process \<Rightarrow> bpf \<Rightarrow> capture option" where
  "ps_bpf_recvbpf c env ctx psp b =
     recvbpf_loop c env ctx psp 0
       \<lparr>cap_flags = bpf_flags b AND NOT (BPF_EOF c), cap_sent = [], cap_log = []\<rparr>"

subsection \<open>ps_bpf_recvmsgcb, the worker's control channel\<close>

text \<open>A call of \<^verbatim>\<open>bpf_send\<close> (bpf.c), the write to the raw handle, with its arguments.\<close>

record raw_write =
  raw_bpf :: "bpf option"
  raw_proto :: u16
  raw_data :: "byte list"
  raw_len :: size_t

text \<open>Lines 94-119. \<open>bpf_send\<close> gives the value the write returns.\<close>

definition ps_bpf_recvmsgcb ::
  "ps_build \<Rightarrow> (raw_write \<Rightarrow> ssize_t) \<Rightarrow> ps_process \<Rightarrow> ps_msghdr \<Rightarrow> msghdr
     \<Rightarrow> result \<times> raw_write option" where
  "ps_bpf_recvmsgcb c bpf_send psp psm msg =
     (let iov = msg_iov msg
      in if (ARP c \<and> ps_cmd psm = PS_BPF_ARP c) \<or> ps_cmd psm = PS_BPF_BOOTP c
         then
           let w = \<lparr>raw_bpf = psp_bpf psp, raw_proto = psp_proto psp,
                    raw_data = iov_base iov, raw_len = iov_len iov\<rparr>
           in ((bpf_send w, None), Some w)
         else ((-1, Some EINVAL), None))"

subsection \<open>The worker lifecycle manager (privsep.c)\<close>

text \<open>A function that can stop at a failed \<^verbatim>\<open>assert\<close> (the build does not define
  \<^verbatim>\<open>NDEBUG\<close>): the process is aborted there and nothing is returned.\<close>

datatype 'a outcome = Returns 'a | Assert_failed

text \<open>A worker record is addressed by its position in \<^verbatim>\<open>ctx->ps_processes\<close>.\<close>

definition psp_modify :: "nat \<Rightarrow> (ps_process \<Rightarrow> ps_process) \<Rightarrow> dhcpcd_ctx \<Rightarrow> dhcpcd_ctx" where
  "psp_modify i f ctx =
     ctx\<lparr>ps_processes := (if i < length (ps_processes ctx)
        then (ps_processes ctx)[i := f (ps_processes ctx ! i)] else ps_processes ctx)\<rparr>"

text \<open>Modelled from the spec: \<^verbatim>\<open>ps_findprocess\<close> is missing; the spec has
  \<^verbatim>\<open>findWorker(key) -> Worker?\<close>. The first record with the key.\<close>

definition ps_findprocess :: "dhcpcd_ctx \<Rightarrow> ps_id \<Rightarrow> ps_process option" where
  "ps_findprocess ctx psid = find (\<lambda>p. psp_id p = psid) (ps_processes ctx)"

text \<open>Modelled from the spec: \<^verbatim>\<open>ps_newprocess\<close> is missing; the spec has
  \<^verbatim>\<open>newWorker(key) -> Worker\<close>, "allocate a new worker record", and the caller tests the
  result for \<^verbatim>\<open>NULL\<close>. When the allocation succeeds (\<open>ok\<close>) a zeroed record with the key
  and the context joins the end of the queue, and its position is returned.\<close>

definition ps_newprocess :: "bool \<Rightarrow> dhcpcd_ctx \<Rightarrow> ps_id \<Rightarrow> (dhcpcd_ctx \<times> nat) option" where
  "ps_newprocess ok ctx psid =
     (if ok
      then Some (ctx\<lparr>ps_processes := ps_processes ctx @
             [\<lparr>psp_id = psid, psp_ctx = Some (ctx_addr ctx), psp_pid = 0, psp_fd = 0,
               psp_work_fd = -1, psp_ifname = [], psp_proto = 0, psp_protostr = [],
               psp_filter = None,
               psp_ifp = \<lparr>if_name = [], if_index = 0, if_ctx = None, if_options = None,
                 if_data = []\<rparr>,
               psp_bpf = None\<rparr>]\<rparr>,
             length (ps_processes ctx))
      else None)"

text \<open>Modelled from the spec: \<^verbatim>\<open>ps_freeprocess\<close> is missing; the spec has
  \<^verbatim>\<open>freeWorker(Worker)\<close>. The record leaves the queue.\<close>

definition ps_freeprocess :: "nat \<Rightarrow> dhcpcd_ctx \<Rightarrow> dhcpcd_ctx" where
  "ps_freeprocess i ctx =
     ctx\<lparr>ps_processes := take i (ps_processes ctx) @ drop (Suc i) (ps_processes ctx)\<rparr>"

text \<open>Modelled from the spec: \<^verbatim>\<open>ps_freeprocesses\<close> is missing; the spec has the new
  worker "release inherited handles not needed by this worker". Every record but the one
  at \<open>i\<close> leaves the queue, and that one is then at position 0.\<close>

definition ps_freeprocesses :: "nat \<Rightarrow> dhcpcd_ctx \<Rightarrow> dhcpcd_ctx" where
  "ps_freeprocesses i ctx = ctx\<lparr>ps_processes := take 1 (drop i (ps_processes ctx))\<rparr>"

subsection \<open>ps_bpf_start_bpf, the start of a worker\<close>

text \<open>What the surroundings answer while a worker is started: whether \<^verbatim>\<open>calloc\<close> gives
  memory, what \<^verbatim>\<open>fork\<close> does, and in the new process the handle \<^verbatim>\<open>bpf_open\<close> opens, the
  value of \<^verbatim>\<open>eloop_event_add\<close> and the text \<^verbatim>\<open>inet_ntoa\<close> prints.\<close>

datatype fork_result = Fork_failed | Fork_parent pid_t int | Fork_child pid_t int

record start_env =
  alloc_ok :: bool
  fork :: fork_result
  bpf_open :: "interface \<Rightarrow> bpf_filter option \<Rightarrow> u32 option \<Rightarrow> bpf option"
  eloop_event_add :: "int \<Rightarrow> int"
  inet_ntoa :: "u32 \<Rightarrow> string"

text \<open>What a start leaves behind: the value returned, the process title if one was set,
  the calls of \<^verbatim>\<open>logerr\<close> and \<^verbatim>\<open>logerrx\<close>, the context, and the position at which the
  record \<^verbatim>\<open>psp\<close> now is.\<close>

record started =
  start :: pid_t
  proctitle :: "string option"
  logged :: "string list"
  ctx_after :: dhcpcd_ctx
  psp_at :: nat

definition EXIT_FAILURE :: int where
  "EXIT_FAILURE = 1"

text \<open>Lines 131-173, in a build without \<^verbatim>\<open>HAVE_CAPSICUM\<close>. \<open>i\<close> is the position of the
  record \<^verbatim>\<open>psp\<close> on entry.\<close>

definition ps_bpf_start_bpf :: "start_env \<Rightarrow> nat \<Rightarrow> dhcpcd_ctx \<Rightarrow> started" where
  "ps_bpf_start_bpf env i ctx =
     (case take 1 (drop i (ps_processes ctx)) of
        [] \<Rightarrow> \<lparr>start = -1, proctitle = None, logged = [], ctx_after = ctx, psp_at = i\<rparr>
      | psp # _ \<Rightarrow>
          let ia = (if psi_addr (psp_id psp) = 0 then None else Some (psi_addr (psp_id psp)));
              addr = map_option (inet_ntoa env) ia;
              title = ''[BPF '' @ psp_protostr psp @ ''] '' @ psp_ifname psp @
                 (if addr \<noteq> None then '' '' else []) @
                 (case addr of None \<Rightarrow> [] | Some a \<Rightarrow> a);
              ctx = ps_freeprocesses i ctx;
              b = bpf_open env (psp_ifp psp) (psp_filter psp) ia;
              ctx = psp_modify 0 (\<lambda>p. p\<lparr>psp_bpf := b\<rparr>) ctx
          in (case b of
               None \<Rightarrow>
                 \<lparr>start = -1, proctitle = Some title,
                  logged = [''ps_bpf_start_bpf: bpf_open''],
                  ctx_after = ctx\<lparr>eloop_exit := Some EXIT_FAILURE\<rparr>, psp_at = 0\<rparr>
             | Some b \<Rightarrow>
                 if eloop_event_add env (bpf_fd b) = -1
                 then \<lparr>start = -1, proctitle = Some title,
                       logged = [''ps_bpf_start_bpf: eloop_event_add''],
                       ctx_after = ctx\<lparr>eloop_exit := Some EXIT_FAILURE\<rparr>, psp_at = 0\<rparr>
                 else \<lparr>start = 0, proctitle = Some title, logged = [],
                       ctx_after = psp_modify 0 (\<lambda>p. p\<lparr>psp_work_fd := bpf_fd b\<rparr>) ctx,
                       psp_at = 0\<rparr>))"

text \<open>Modelled from the spec: \<^verbatim>\<open>ps_dostart\<close> is missing; the spec has
  \<^verbatim>\<open>startWorker(...) -> pid | 0 | -1\<close>, "where 0 is returned inside the newly created
  worker process and a positive pid in the supervisor", the child running the startup
  sequence (here the callback \<^verbatim>\<open>ps_bpf_start_bpf\<close>) and failing when that fails. The two
  results \<^verbatim>\<open>&psp->psp_pid\<close> and \<^verbatim>\<open>&psp->psp_fd\<close> are stored in the record.\<close>

definition ps_dostart :: "start_env \<Rightarrow> nat \<Rightarrow> dhcpcd_ctx \<Rightarrow> started" where
  "ps_dostart env i ctx =
     (case fork env of
        Fork_failed \<Rightarrow>
          \<lparr>start = -1, proctitle = None, logged = [], ctx_after = ctx, psp_at = i\<rparr>
      | Fork_parent pid fd \<Rightarrow>
          \<lparr>start = pid, proctitle = None, logged = [],
           ctx_after = psp_modify i (\<lambda>p. p\<lparr>psp_pid := pid, psp_fd := fd\<rparr>) ctx, psp_at = i\<rparr>
      | Fork_child pid fd \<Rightarrow>
          ps_bpf_start_bpf env i (psp_modify i (\<lambda>p. p\<lparr>psp_pid := pid, psp_fd := fd\<rparr>) ctx))"

subsection \<open>ps_bpf_cmd, the supervisor's command dispatcher\<close>

definition ETHERTYPE_IP :: u16 where
  "ETHERTYPE_IP = 0x0800"

definition ETHERTYPE_ARP :: u16 where
  "ETHERTYPE_ARP = 0x0806"

text \<open>Lines 223-231: the interface carried by the payload becomes the worker's own.\<close>

definition cmd_copy_ifp :: "ps_build \<Rightarrow> iovec \<Rightarrow> ps_process \<Rightarrow> ps_process" where
  "cmd_copy_ifp c iov psp =
     (let ifp = interface_of_bytes c (take (unat (sizeof_interface c)) (iov_base iov));
          ifp = ifp\<lparr>if_ctx := psp_ctx psp, if_options := None,
                    if_data := map (\<lambda>_. None) (if_data ifp)\<rparr>
      in psp\<lparr>psp_ifp := ifp, psp_ifname := if_name ifp\<rparr>)"

text \<open>Lines 233-246.\<close>

definition cmd_set_proto :: "ps_build \<Rightarrow> u16 \<Rightarrow> ps_process \<Rightarrow> ps_process" where
  "cmd_set_proto c cmd psp =
     (if ARP c \<and> cmd = PS_BPF_ARP c
      then psp\<lparr>psp_proto := ETHERTYPE_ARP, psp_protostr := ''ARP'', psp_filter := Some bpf_arp\<rparr>
      else if cmd = PS_BPF_BOOTP c
      then psp\<lparr>psp_proto := ETHERTYPE_IP, psp_protostr := ''BOOTP'',
                psp_filter := Some bpf_bootp\<rparr>
      else psp)"

text \<open>What a call of \<^verbatim>\<open>ps_bpf_cmd\<close> leaves behind: the value returned (or the failed
  assertion), the calls of \<^verbatim>\<open>logerr\<close> and \<^verbatim>\<open>logerrx\<close>, and the context.\<close>

record cmd_done =
  cmd_result :: "result outcome"
  cmd_logged :: "string list"
  cmd_ctx :: dhcpcd_ctx

text \<open>Lines 183-275, in a build without \<^verbatim>\<open>PRIVSEP_DEBUG\<close>, \<^verbatim>\<open>HAVE_CAPSICUM\<close> and
  \<^verbatim>\<open>HAVE_PLEDGE\<close>.\<close>

definition ps_bpf_cmd ::
  "ps_build \<Rightarrow> start_env \<Rightarrow> dhcpcd_ctx \<Rightarrow> ps_msghdr \<Rightarrow> msghdr \<Rightarrow> cmd_done" where
  "ps_bpf_cmd c env ctx psm msg =
     (let iov = msg_iov msg;
          cmd = ps_cmd psm AND NOT (PS_START c OR PS_STOP c);
          psp = ps_findprocess ctx (ps_id psm)
      in if \<not> ((ARP c \<and> cmd = PS_BPF_ARP c) \<or> cmd = PS_BPF_BOOTP c)
         then \<lparr>cmd_result = Returns (-1, Some ENOTSUP),
               cmd_logged = [''ps_bpf_cmd: unknown command''], cmd_ctx = ctx\<rparr>
         else if ps_cmd psm AND PS_START c = 0
         then \<lparr>cmd_result = Returns (-1, Some EINVAL), cmd_logged = [], cmd_ctx = ctx\<rparr>
         else if psp \<noteq> None
         then \<lparr>cmd_result = Returns (1, None), cmd_logged = [], cmd_ctx = ctx\<rparr>
         else
           case ps_newprocess (alloc_ok env) ctx (ps_id psm) of
             None \<Rightarrow> \<lparr>cmd_result = Returns (-1, None), cmd_logged = [], cmd_ctx = ctx\<rparr>
           | Some (ctx, i) \<Rightarrow>
               if msg_iovlen msg \<noteq> 1
               then \<lparr>cmd_result = Assert_failed, cmd_logged = [], cmd_ctx = ctx\<rparr>
               else if iov_len iov \<noteq> sizeof_interface c
               then \<lparr>cmd_result = Assert_failed, cmd_logged = [], cmd_ctx = ctx\<rparr>
               else
                 let ctx = psp_modify i (cmd_copy_ifp c iov) ctx;
                     ctx = psp_modify i (cmd_set_proto c cmd) ctx;
                     st = ps_dostart env i ctx
                 in if start st = -1
                    then \<lparr>cmd_result = Returns (-1, None), cmd_logged = logged st,
                          cmd_ctx = ps_freeprocess (psp_at st) (ctx_after st)\<rparr>
                    else \<lparr>cmd_result = Returns (start st, None), cmd_logged = logged st,
                          cmd_ctx = ctx_after st\<rparr>)"

subsection \<open>ps_bpf_send, the injection path\<close>

text \<open>Lines 311-328. \<open>ctx\<close> is \<^verbatim>\<open>ifp->ctx\<close>, \<open>ia\<close> is \<open>None\<close> for a \<^verbatim>\<open>NULL\<close> address. The
  function ends with one call of \<^verbatim>\<open>ps_sendpsmdata\<close>, whose value it returns: the call is
  its result here.\<close>

definition ps_bpf_send ::
  "ps_build \<Rightarrow> dhcpcd_ctx \<Rightarrow> interface \<Rightarrow> u32 option \<Rightarrow> u16 \<Rightarrow> byte list \<Rightarrow> size_t \<Rightarrow> psm_send" where
  "ps_bpf_send c ctx ifp ia cmd data len =
     (let psm = \<lparr>ps_cmd = cmd,
                 ps_id = \<lparr>psi_addr = 0, psi_ifindex = if_index ifp,
                          psi_cmd = ucast (cmd AND NOT (PS_START c OR PS_STOP c))\<rparr>\<rparr>;
          psm = (case ia of None \<Rightarrow> psm
                 | Some a \<Rightarrow> psm\<lparr>ps_id := (ps_id psm)\<lparr>psi_addr := a\<rparr>\<rparr>)
      in \<lparr>sent_fd = ps_root_fd ctx, sent_psm = psm, sent_data = data, sent_len = len\<rparr>)"

text \<open>Lines 330-377. The ARP functions exist in a build with \<^verbatim>\<open>ARP\<close> only. For the two
  open functions the data are the bytes of \<^verbatim>\<open>*ifp\<close>, given by \<open>ifp_bytes\<close>; a close sends
  a \<^verbatim>\<open>NULL\<close> pointer and length 0.\<close>

definition ps_bpf_openarp ::
  "ps_build \<Rightarrow> dhcpcd_ctx \<Rightarrow> interface \<Rightarrow> byte list \<Rightarrow> u32 option \<Rightarrow> psm_send outcome" where
  "ps_bpf_openarp c ctx ifp ifp_bytes ia =
     (if ia = None then Assert_failed
      else Returns (ps_bpf_send c ctx ifp ia (PS_BPF_ARP c OR PS_START c) ifp_bytes
             (sizeof_interface c)))"

definition ps_bpf_closearp :: "ps_build \<Rightarrow> dhcpcd_ctx \<Rightarrow> interface \<Rightarrow> u32 option \<Rightarrow> psm_send" where
  "ps_bpf_closearp c ctx ifp ia = ps_bpf_send c ctx ifp ia (PS_BPF_ARP c OR PS_STOP c) [] 0"

definition ps_bpf_sendarp ::
  "ps_build \<Rightarrow> dhcpcd_ctx \<Rightarrow> interface \<Rightarrow> u32 option \<Rightarrow> byte list \<Rightarrow> size_t
     \<Rightarrow> psm_send outcome" where
  "ps_bpf_sendarp c ctx ifp ia data len =
     (if ia = None then Assert_failed
      else Returns (ps_bpf_send c ctx ifp ia (PS_BPF_ARP c) data len))"

definition ps_bpf_openbootp ::
  "ps_build \<Rightarrow> dhcpcd_ctx \<Rightarrow> interface \<Rightarrow> byte list \<Rightarrow> psm_send" where
  "ps_bpf_openbootp c ctx ifp ifp_bytes =
     ps_bpf_send c ctx ifp None (PS_BPF_BOOTP c OR PS_START c) ifp_bytes (sizeof_interface c)"

definition ps_bpf_closebootp :: "ps_build \<Rightarrow> dhcpcd_ctx \<Rightarrow> interface \<Rightarrow> psm_send" where
  "ps_bpf_closebootp c ctx ifp = ps_bpf_send c ctx ifp None (PS_BPF_BOOTP c OR PS_STOP c) [] 0"

definition ps_bpf_sendbootp ::
  "ps_build \<Rightarrow> dhcpcd_ctx \<Rightarrow> interface \<Rightarrow> byte list \<Rightarrow> size_t \<Rightarrow> psm_send" where
  "ps_bpf_sendbootp c ctx ifp data len = ps_bpf_send c ctx ifp None (PS_BPF_BOOTP c) data len"

subsection \<open>Notions the properties are stated with\<close>

text \<open>The worker records the context holds for a key.\<close>

definition workers_for :: "dhcpcd_ctx \<Rightarrow> ps_id \<Rightarrow> ps_process list" where
  "workers_for ctx k = filter (\<lambda>p. psp_id p = k) (ps_processes ctx)"

text \<open>Pass \<open>k\<close> of the capture loop: the read yields a frame, the send succeeds, the read
  leaves the end-of-stream flag set, and the call of \<^verbatim>\<open>ps_sendpsmdata\<close> the pass makes.\<close>

definition yields_frame :: "capture_env \<Rightarrow> nat \<Rightarrow> bool" where
  "yields_frame env k = (fst (bpf_read env k) \<noteq> -1 \<and> fst (bpf_read env k) \<noteq> 0)"

definition send_ok :: "capture_env \<Rightarrow> nat \<Rightarrow> bool" where
  "send_ok env k = (fst (ps_sendpsmdata env k) \<noteq> -1 \<and> fst (ps_sendpsmdata env k) \<noteq> 0)"

definition read_sets_eof :: "ps_build \<Rightarrow> capture_env \<Rightarrow> nat \<Rightarrow> bool" where
  "read_sets_eof c env k = (snd (snd (bpf_read env k)) AND BPF_EOF c \<noteq> 0)"

definition forwarded :: "ps_build \<Rightarrow> capture_env \<Rightarrow> dhcpcd_ctx \<Rightarrow> ps_process \<Rightarrow> nat \<Rightarrow> psm_send" where
  "forwarded c env ctx psp k =
     recvbpf_send c ctx psp (snd (snd (bpf_read env k))) (fst (snd (bpf_read env k)))
       (fst (bpf_read env k))"

text \<open>The message a frame command delivers: the header, and the payload as one vector.\<close>

definition delivered :: "psm_send \<Rightarrow> msghdr" where
  "delivered m = \<lparr>msg_iov = \<lparr>iov_base = sent_data m, iov_len = sent_len m\<rparr>, msg_iovlen = 1\<rparr>"

subsection \<open>Concrete values for evaluation\<close>

text \<open>Two keys on interface 2, BOOTP and ARP for 192.0.2.5, a supervisor with no worker
  yet, and one worker of each protocol as \<^verbatim>\<open>ps_bpf_cmd\<close> sets them up.\<close>

definition bootp_key :: ps_id where
  "bootp_key = \<lparr>psi_addr = 0, psi_ifindex = 2, psi_cmd = 4\<rparr>"

definition arp_key :: ps_id where
  "arp_key = \<lparr>psi_addr = 0xC0000205, psi_ifindex = 2, psi_cmd = 5\<rparr>"

definition idle_ctx :: dhcpcd_ctx where
  "idle_ctx = \<lparr>ctx_addr = 1, ifaces = [], ps_processes = [], ps_root_fd = 3, ps_data_fd = 4,
     eloop_exit = None\<rparr>"

definition eth0 :: interface where
  "eth0 = \<lparr>if_name = ''eth0'', if_index = 2, if_ctx = Some 1, if_options = None,
     if_data = [None]\<rparr>"

definition raw_handle :: bpf where
  "raw_handle = \<lparr>bpf_fd = 5, bpf_flags = 1\<rparr>"

definition bootp_worker :: ps_process where
  "bootp_worker = \<lparr>psp_id = bootp_key, psp_ctx = Some 1, psp_pid = 1234, psp_fd = 7,
     psp_work_fd = 5, psp_ifname = ''eth0'', psp_proto = ETHERTYPE_IP,
     psp_protostr = ''BOOTP'', psp_filter = Some bpf_bootp, psp_ifp = eth0,
     psp_bpf = Some raw_handle\<rparr>"

definition arp_worker :: ps_process where
  "arp_worker = \<lparr>psp_id = arp_key, psp_ctx = Some 1, psp_pid = 1235, psp_fd = 8,
     psp_work_fd = 5, psp_ifname = ''eth0'', psp_proto = ETHERTYPE_ARP,
     psp_protostr = ''ARP'', psp_filter = Some bpf_arp, psp_ifp = eth0,
     psp_bpf = Some raw_handle\<rparr>"

text \<open>A START command for a key, a payload of the eight bytes of an interface and one of
  three bytes, and surroundings in which the allocation and the fork succeed, seen from
  the supervisor.\<close>

definition start_cmd :: "ps_id \<Rightarrow> ps_msghdr" where
  "start_cmd k = \<lparr>ps_cmd = ucast (psi_cmd k) OR PS_START dhcpcd_build, ps_id = k\<rparr>"

definition snapshot_msg :: msghdr where
  "snapshot_msg = \<lparr>msg_iov = \<lparr>iov_base = [2, 0, 0, 0, 101, 116, 104, 48], iov_len = 8\<rparr>,
     msg_iovlen = 1\<rparr>"

definition short_msg :: msghdr where
  "short_msg = \<lparr>msg_iov = \<lparr>iov_base = [2, 0, 0], iov_len = 3\<rparr>, msg_iovlen = 1\<rparr>"

definition opened :: "interface \<Rightarrow> bpf_filter option \<Rightarrow> u32 option \<Rightarrow> bpf option" where
  "opened ifp flt ia = Some raw_handle"

definition added :: "int \<Rightarrow> int" where
  "added fd = 0"

definition dotted :: "u32 \<Rightarrow> string" where
  "dotted a = ''192.0.2.5''"

definition parent_env :: start_env where
  "parent_env = \<lparr>alloc_ok = True, fork = Fork_parent 1234 7, bpf_open = opened,
     eloop_event_add = added, inet_ntoa = dotted\<rparr>"

text \<open>A raw write that takes every byte, and three runs of the capture loop: two frames
  and then a read of length 0; the same with the first read leaving the end-of-stream flag
  set; and one frame whose send fails, with a given \<^verbatim>\<open>errno\<close>.\<close>

definition write_all :: "raw_write \<Rightarrow> ssize_t" where
  "write_all w = int (unat (raw_len w))"

definition two_frames :: "nat \<Rightarrow> ssize_t \<times> byte list \<times> u32" where
  "two_frames k = (if k = 0 then (3, [1, 2, 3], 0) else if k = 1 then (2, [4, 5], 0)
     else (0, [], 0))"

definition two_frames_eof :: "nat \<Rightarrow> ssize_t \<times> byte list \<times> u32" where
  "two_frames_eof k = (if k = 0 then (3, [1, 2, 3], 1) else if k = 1 then (2, [4, 5], 0)
     else (0, [], 0))"

definition sends_pass :: "nat \<Rightarrow> ssize_t \<times> errno" where
  "sends_pass k = (20, Errno 0)"

definition sends_fail :: "errno \<Rightarrow> nat \<Rightarrow> ssize_t \<times> errno" where
  "sends_fail e k = (-1, e)"

definition drained_env :: capture_env where
  "drained_env = \<lparr>bpf_read = two_frames, ps_sendpsmdata = sends_pass\<rparr>"

definition eof_env :: capture_env where
  "eof_env = \<lparr>bpf_read = two_frames_eof, ps_sendpsmdata = sends_pass\<rparr>"

definition broken_env :: "errno \<Rightarrow> capture_env" where
  "broken_env e = \<lparr>bpf_read = two_frames, ps_sendpsmdata = sends_fail e\<rparr>"

text \<open>A command with a tag of another subsystem, a STOP command for a key, a supervisor
  that has the BOOTP worker, and a frame of three bytes on a control channel.\<close>

definition unknown_cmd :: ps_msghdr where
  "unknown_cmd = \<lparr>ps_cmd = 0x4001, ps_id = bootp_key\<rparr>"

definition stop_cmd :: "ps_id \<Rightarrow> ps_msghdr" where
  "stop_cmd k = \<lparr>ps_cmd = ucast (psi_cmd k) OR PS_STOP dhcpcd_build, ps_id = k\<rparr>"

definition busy_ctx :: dhcpcd_ctx where
  "busy_ctx = idle_ctx\<lparr>ps_processes := [bootp_worker]\<rparr>"

definition frame_msg :: msghdr where
  "frame_msg = \<lparr>msg_iov = \<lparr>iov_base = [8, 0, 6], iov_len = 3\<rparr>, msg_iovlen = 1\<rparr>"

section \<open>Properties\<close>

subsection \<open>Bytes and bits\<close>

lemma le_word_le_bytes: "le_word (le_bytes w) = w"
proof (rule bit_word_eqI)
  fix n assume "n < LENGTH(32)"
  then show "bit (le_word (le_bytes w)) n = bit w n"
    by (cases "n < 8"; cases "n < 16"; cases "n < 24") (auto simp: le_bytes_def bit_simps)
qed

lemma length_le_bytes: "length (le_bytes w) = 4"
  by (simp add: le_bytes_def)

lemma length_store_flags: "length (store_flags e w) = sizeof_bpf_flags"
  by (cases e) (simp_all add: store_flags_def length_le_bytes sizeof_bpf_flags_def)

lemma load_store_flags: "load_flags e (store_flags e w @ bs) = w"
  by (cases e)
    (simp_all add: load_flags_def store_flags_def sizeof_bpf_flags_def length_le_bytes
      le_word_le_bytes)

lemma drop_store_flags: "drop sizeof_bpf_flags (store_flags e w @ bs) = bs"
  using length_store_flags [of e w] by simp

lemma take_store_flags: "take sizeof_bpf_flags (store_flags e w @ bs) = store_flags e w"
  using length_store_flags [of e w] by simp

lemma envelope_len:
  assumes "n + 4 < (2::nat) ^ 64"
  shows "(word_of_int (int n) + word_of_nat sizeof_bpf_flags :: size_t) -
           word_of_nat sizeof_bpf_flags = word_of_nat n"
    and "unat (word_of_int (int n) + word_of_nat sizeof_bpf_flags :: size_t) =
           n + sizeof_bpf_flags"
    and "unat (word_of_nat n :: size_t) = n"
  using assms
  by (simp_all add: sizeof_bpf_flags_def unat_word_ariths unat_of_nat take_bit_nat_eq_self)

lemma and_not_mask_id:
  fixes x m :: u16
  assumes "x AND m = 0"
  shows "x AND NOT m = x"
proof (rule bit_word_eqI)
  fix n assume n: "n < LENGTH(16)"
  have nb: "\<not> bit (x AND m) n" using assms by simp
  from n nb show "bit (x AND NOT m) n = bit x n"
    by (auto simp: bit_simps)
qed

lemma stop_command_bits:
  fixes tag :: u16
  assumes t: "tag AND (a OR b) = 0" and s: "b AND a = 0"
  shows "(tag OR b) AND NOT (a OR b) = tag" and "(tag OR b) AND a = 0"
proof -
  show "(tag OR b) AND NOT (a OR b) = tag"
  proof (rule bit_word_eqI)
    fix n assume n: "n < LENGTH(16)"
    have "\<not> bit (tag AND (a OR b)) n" using t by simp
    with n show "bit ((tag OR b) AND NOT (a OR b)) n = bit tag n"
      by (auto simp: bit_simps)
  qed
  show "(tag OR b) AND a = 0"
  proof (rule bit_word_eqI)
    fix n assume n: "n < LENGTH(16)"
    have "\<not> bit (tag AND (a OR b)) n" and "\<not> bit (b AND a) n"
      using t s by simp_all
    with n show "bit ((tag OR b) AND a) n = bit (0::u16) n"
      by (auto simp: bit_simps)
  qed
qed

lemma clear_entry: "(x AND NOT e) AND e = (0::u32)"
  by (simp add: and.assoc)

lemma or_entry: "(x OR e) AND NOT e = x AND NOT (e::u32)"
  by (simp add: bit.conj_disj_distrib2)

lemma dhcpcd_build_ok: "ps_build_ok dhcpcd_build"
  by (simp add: ps_build_ok_def dhcpcd_build_def)

subsection \<open>The frame envelope\<close>

text \<open>Claim C4. For every flags value and every frame within the maximal frame size, the
  envelope the capture loop sends (lines 84-86) has the flags as its prefix, the frame
  after it and the frame length plus the size of the flags as its length; and
  \<^verbatim>\<open>ps_bpf_dispatch\<close> (lines 288-292), given that message, hands its handler the same
  flags, the same frame bytes and the same length.\<close>

theorem frame_envelope_roundtrip:
  assumes "buf_fits c" and "length bytes \<le> FRAMELEN_MAX c"
    and "(ARP c \<and> ps_cmd (recvbpf_psm psp) = PS_BPF_ARP c) \<or>
         ps_cmd (recvbpf_psm psp) = PS_BPF_BOOTP c"
  shows "let m = recvbpf_send c wctx psp flags bytes (int (length bytes))
         in take sizeof_bpf_flags (sent_data m) = store_flags (byte_order c) flags \<and>
            drop sizeof_bpf_flags (sent_data m) = bytes \<and>
            unat (sent_len m) = length bytes + sizeof_bpf_flags \<and>
            (\<exists>hc. ps_bpf_dispatch c ctx (sent_psm m) (delivered m) = ((1, None), Some hc) \<and>
               hc_flags hc = flags \<and> hc_data hc = bytes \<and> unat (hc_len hc) = length bytes)"
proof -
  from assms(1,2) have n: "length bytes + 4 < (2::nat) ^ 64"
    by (simp add: buf_fits_def)
  show ?thesis
    using assms(3) envelope_len [OF n]
    by (auto simp: Let_def recvbpf_send_def ps_bpf_dispatch_def delivered_def take_store_flags
        drop_store_flags load_store_flags simp del: take_append drop_append)
qed

theorem frame_envelope_roundtrip_witness:
  "buf_fits dhcpcd_build \<and> length [8, 0, 6 :: byte] \<le> FRAMELEN_MAX dhcpcd_build \<and>
   ps_cmd (recvbpf_psm bootp_worker) = PS_BPF_BOOTP dhcpcd_build \<and>
   sent_data (recvbpf_send dhcpcd_build idle_ctx bootp_worker 2 [8, 0, 6] 3) =
     [2, 0, 0, 0, 8, 0, 6] \<and>
   (\<exists>hc. ps_bpf_dispatch dhcpcd_build idle_ctx
            (sent_psm (recvbpf_send dhcpcd_build idle_ctx bootp_worker 2 [8, 0, 6] 3))
            (delivered (recvbpf_send dhcpcd_build idle_ctx bootp_worker 2 [8, 0, 6] 3)) =
              ((1, None), Some hc) \<and>
          hc_flags hc = 2 \<and> hc_data hc = [8, 0, 6] \<and> unat (hc_len hc) = 3)"
proof -
  have tag: "ps_cmd (recvbpf_psm bootp_worker) = PS_BPF_BOOTP dhcpcd_build"
    by (simp add: recvbpf_psm_def bootp_worker_def bootp_key_def dhcpcd_build_def)
  have len: "length [8, 0, 6 :: byte] \<le> FRAMELEN_MAX dhcpcd_build"
    by (simp add: dhcpcd_build_def)
  have data: "sent_data (recvbpf_send dhcpcd_build idle_ctx bootp_worker 2 [8, 0, 6] 3) =
      [2, 0, 0, 0, 8, 0, 6]"
    by (simp add: recvbpf_send_def dhcpcd_build_def store_flags_def le_bytes_def)
  from tag have tags: "(ARP dhcpcd_build \<and>
      ps_cmd (recvbpf_psm bootp_worker) = PS_BPF_ARP dhcpcd_build) \<or>
      ps_cmd (recvbpf_psm bootp_worker) = PS_BPF_BOOTP dhcpcd_build"
    by simp
  have three: "int (length [8, 0, 6 :: byte]) = 3"
    by simp
  have fits: "buf_fits dhcpcd_build"
    by (simp add: buf_fits_def dhcpcd_build_def)
  from frame_envelope_roundtrip [OF fits len tags, where wctx = idle_ctx and flags = 2
      and ctx = idle_ctx]
  have "\<exists>hc. ps_bpf_dispatch dhcpcd_build idle_ctx
            (sent_psm (recvbpf_send dhcpcd_build idle_ctx bootp_worker 2 [8, 0, 6] 3))
            (delivered (recvbpf_send dhcpcd_build idle_ctx bootp_worker 2 [8, 0, 6] 3)) =
              ((1, None), Some hc) \<and>
          hc_flags hc = 2 \<and> hc_data hc = [8, 0, 6] \<and> unat (hc_len hc) = 3"
    unfolding Let_def three by auto
  with fits len tag data show ?thesis
    by blast
qed

text \<open>Claim C10. \<^verbatim>\<open>ps_bpf_dispatch\<close> subtracts the size of the flags from the payload
  length without a test: whenever it calls a handler, the length it hands over is the
  payload length minus the size of the flags in \<^verbatim>\<open>size_t\<close> arithmetic, which is the
  difference for a payload at least that long and wraps around to a value near \<open>2^64\<close> for
  a shorter one.\<close>

theorem dispatch_length_unguarded:
  assumes "(ARP c \<and> ps_cmd psm = PS_BPF_ARP c) \<or> ps_cmd psm = PS_BPF_BOOTP c"
  shows "\<exists>hc. ps_bpf_dispatch c ctx psm msg = ((1, None), Some hc) \<and>
           hc_len hc = iov_len (msg_iov msg) - word_of_nat sizeof_bpf_flags \<and>
           unat (hc_len hc) =
             (if sizeof_bpf_flags \<le> unat (iov_len (msg_iov msg))
              then unat (iov_len (msg_iov msg)) - sizeof_bpf_flags
              else 2 ^ 64 + unat (iov_len (msg_iov msg)) - sizeof_bpf_flags)"
proof -
  have "unat (w - 4) = (if 4 \<le> unat w then unat w - 4 else 2 ^ 64 + unat w - 4)"
    for w :: size_t
    by (simp add: unat_sub_if_size word_size word_le_nat_alt word_less_nat_alt not_le)
  then show ?thesis
    using assms by (auto simp: ps_bpf_dispatch_def Let_def sizeof_bpf_flags_def)
qed

theorem dispatch_length_unguarded_witness:
  "ps_cmd (recvbpf_psm bootp_worker) = PS_BPF_BOOTP dhcpcd_build \<and>
   (\<exists>hc. ps_bpf_dispatch dhcpcd_build idle_ctx (recvbpf_psm bootp_worker) snapshot_msg =
            ((1, None), Some hc) \<and> unat (hc_len hc) = 4) \<and>
   (\<exists>hc. ps_bpf_dispatch dhcpcd_build idle_ctx (recvbpf_psm bootp_worker) short_msg =
            ((1, None), Some hc) \<and> unat (hc_len hc) = 18446744073709551615)"
proof -
  have tag: "ps_cmd (recvbpf_psm bootp_worker) = PS_BPF_BOOTP dhcpcd_build"
    by (simp add: recvbpf_psm_def bootp_worker_def bootp_key_def dhcpcd_build_def)
  then have tags: "(ARP dhcpcd_build \<and>
      ps_cmd (recvbpf_psm bootp_worker) = PS_BPF_ARP dhcpcd_build) \<or>
      ps_cmd (recvbpf_psm bootp_worker) = PS_BPF_BOOTP dhcpcd_build"
    by simp
  from dispatch_length_unguarded [OF tags, where ctx = idle_ctx and msg = snapshot_msg]
  obtain hc where a: "ps_bpf_dispatch dhcpcd_build idle_ctx (recvbpf_psm bootp_worker)
        snapshot_msg = ((1, None), Some hc)"
    and "unat (hc_len hc) =
      (if sizeof_bpf_flags \<le> unat (iov_len (msg_iov snapshot_msg))
       then unat (iov_len (msg_iov snapshot_msg)) - sizeof_bpf_flags
       else 2 ^ 64 + unat (iov_len (msg_iov snapshot_msg)) - sizeof_bpf_flags)"
    by blast
  then have b: "unat (hc_len hc) = 4"
    by (simp add: snapshot_msg_def sizeof_bpf_flags_def)
  from dispatch_length_unguarded [OF tags, where ctx = idle_ctx and msg = short_msg]
  obtain hc' where a': "ps_bpf_dispatch dhcpcd_build idle_ctx (recvbpf_psm bootp_worker)
        short_msg = ((1, None), Some hc')"
    and "unat (hc_len hc') =
      (if sizeof_bpf_flags \<le> unat (iov_len (msg_iov short_msg))
       then unat (iov_len (msg_iov short_msg)) - sizeof_bpf_flags
       else 2 ^ 64 + unat (iov_len (msg_iov short_msg)) - sizeof_bpf_flags)"
    by blast
  then have b': "unat (hc_len hc') = 18446744073709551615"
    by (simp add: short_msg_def sizeof_bpf_flags_def)
  from tag a b a' b' show ?thesis
    by blast
qed

subsection \<open>Commands the dispatchers refuse\<close>

text \<open>Claim C6. For every command whose tag, once the START and STOP bits are masked
  off, is neither ARP nor BOOTP, \<^verbatim>\<open>ps_bpf_cmd\<close> and \<^verbatim>\<open>ps_bpf_dispatch\<close> both return -1 with
  \<^verbatim>\<open>ENOTSUP\<close>; the former leaves the context with its worker records as it was, the latter
  calls no handler.\<close>

theorem unknown_tag_unsupported:
  assumes "ps_build_ok c"
    and "ps_cmd psm AND NOT (PS_START c OR PS_STOP c) \<noteq> PS_BPF_ARP c"
    and "ps_cmd psm AND NOT (PS_START c OR PS_STOP c) \<noteq> PS_BPF_BOOTP c"
  shows "cmd_result (ps_bpf_cmd c env ctx psm msg) = Returns (-1, Some ENOTSUP) \<and>
         cmd_ctx (ps_bpf_cmd c env ctx psm msg) = ctx \<and>
         ps_bpf_dispatch c ctx psm msg = ((-1, Some ENOTSUP), None)"
proof -
  have "ps_cmd psm \<noteq> PS_BPF_ARP c" "ps_cmd psm \<noteq> PS_BPF_BOOTP c"
    using assms and_not_mask_id [of "PS_BPF_ARP c" "PS_START c OR PS_STOP c"]
      and_not_mask_id [of "PS_BPF_BOOTP c" "PS_START c OR PS_STOP c"]
    by (auto simp: ps_build_ok_def)
  then show ?thesis
    using assms(2,3) by (simp add: ps_bpf_cmd_def ps_bpf_dispatch_def Let_def)
qed

theorem unknown_tag_unsupported_witness:
  "ps_build_ok dhcpcd_build \<and>
   ps_cmd unknown_cmd AND NOT (PS_START dhcpcd_build OR PS_STOP dhcpcd_build) \<noteq>
     PS_BPF_ARP dhcpcd_build \<and>
   ps_cmd unknown_cmd AND NOT (PS_START dhcpcd_build OR PS_STOP dhcpcd_build) \<noteq>
     PS_BPF_BOOTP dhcpcd_build \<and>
   cmd_result (ps_bpf_cmd dhcpcd_build parent_env busy_ctx unknown_cmd snapshot_msg) =
     Returns (-1, Some ENOTSUP) \<and>
   cmd_ctx (ps_bpf_cmd dhcpcd_build parent_env busy_ctx unknown_cmd snapshot_msg) = busy_ctx \<and>
   ps_bpf_dispatch dhcpcd_build busy_ctx unknown_cmd snapshot_msg = ((-1, Some ENOTSUP), None)"
proof -
  have a: "ps_cmd unknown_cmd AND NOT (PS_START dhcpcd_build OR PS_STOP dhcpcd_build) \<noteq>
      PS_BPF_ARP dhcpcd_build"
    by (simp add: unknown_cmd_def dhcpcd_build_def)
  have b: "ps_cmd unknown_cmd AND NOT (PS_START dhcpcd_build OR PS_STOP dhcpcd_build) \<noteq>
      PS_BPF_BOOTP dhcpcd_build"
    by (simp add: unknown_cmd_def dhcpcd_build_def)
  from unknown_tag_unsupported [OF dhcpcd_build_ok a b] dhcpcd_build_ok a b
  show ?thesis
    by blast
qed

text \<open>Claim C9. For every command with a recognised tag whose START bit is clear, and so
  for every STOP command of a recognised tag, \<^verbatim>\<open>ps_bpf_cmd\<close> returns -1 with \<^verbatim>\<open>EINVAL\<close>
  and leaves the context as it was: no worker record is removed.\<close>

theorem recognised_without_start_invalid:
  assumes "(ARP c \<and> tag = PS_BPF_ARP c) \<or> tag = PS_BPF_BOOTP c"
    and "(ps_cmd psm AND NOT (PS_START c OR PS_STOP c) = tag \<and>
          ps_cmd psm AND PS_START c = 0) \<or>
         (ps_build_ok c \<and> ps_cmd psm = tag OR PS_STOP c)"
  shows "cmd_result (ps_bpf_cmd c env ctx psm msg) = Returns (-1, Some EINVAL) \<and>
         cmd_ctx (ps_bpf_cmd c env ctx psm msg) = ctx"
proof -
  have "ps_cmd psm AND NOT (PS_START c OR PS_STOP c) = tag \<and> ps_cmd psm AND PS_START c = 0"
  proof (cases "ps_build_ok c \<and> ps_cmd psm = tag OR PS_STOP c")
    case True
    with assms(1) have t: "tag AND (PS_START c OR PS_STOP c) = 0"
      and s: "PS_STOP c AND PS_START c = 0"
      by (auto simp: ps_build_ok_def)
    from stop_command_bits [OF t s] True show ?thesis
      by simp
  next
    case False
    with assms(2) show ?thesis by blast
  qed
  with assms(1) show ?thesis
    by (auto simp: ps_bpf_cmd_def Let_def)
qed

theorem recognised_without_start_invalid_witness:
  "ps_build_ok dhcpcd_build \<and> ps_cmd (stop_cmd bootp_key) = 0x8004 \<and>
   ps_cmd (stop_cmd bootp_key) = PS_BPF_BOOTP dhcpcd_build OR PS_STOP dhcpcd_build \<and>
   ps_findprocess busy_ctx bootp_key = Some bootp_worker \<and>
   cmd_result (ps_bpf_cmd dhcpcd_build parent_env busy_ctx (stop_cmd bootp_key) frame_msg) =
     Returns (-1, Some EINVAL) \<and>
   cmd_ctx (ps_bpf_cmd dhcpcd_build parent_env busy_ctx (stop_cmd bootp_key) frame_msg) =
     busy_ctx"
proof -
  have stop: "ps_cmd (stop_cmd bootp_key) = PS_BPF_BOOTP dhcpcd_build OR PS_STOP dhcpcd_build"
    by (simp add: stop_cmd_def bootp_key_def dhcpcd_build_def)
  have found: "ps_findprocess busy_ctx bootp_key = Some bootp_worker"
    by (simp add: ps_findprocess_def busy_ctx_def idle_ctx_def bootp_worker_def)
  have tag: "(ARP dhcpcd_build \<and> PS_BPF_BOOTP dhcpcd_build = PS_BPF_ARP dhcpcd_build) \<or>
      PS_BPF_BOOTP dhcpcd_build = PS_BPF_BOOTP dhcpcd_build"
    by simp
  have cmd: "(ps_cmd (stop_cmd bootp_key) AND
        NOT (PS_START dhcpcd_build OR PS_STOP dhcpcd_build) = PS_BPF_BOOTP dhcpcd_build \<and>
      ps_cmd (stop_cmd bootp_key) AND PS_START dhcpcd_build = 0) \<or>
      (ps_build_ok dhcpcd_build \<and>
       ps_cmd (stop_cmd bootp_key) = PS_BPF_BOOTP dhcpcd_build OR PS_STOP dhcpcd_build)"
    using stop dhcpcd_build_ok by blast
  have code: "ps_cmd (stop_cmd bootp_key) = 0x8004"
    by (simp add: stop_cmd_def bootp_key_def dhcpcd_build_def)
  from recognised_without_start_invalid [OF tag cmd] stop found dhcpcd_build_ok code
  show ?thesis
    by blast
qed

subsection \<open>The worker's control channel\<close>

text \<open>Claim C2, as the code has it. \<^verbatim>\<open>ps_bpf_recvmsgcb\<close> accepts the two frame commands,
  \<^verbatim>\<open>PS_BPF_ARP\<close> (in a build with ARP) and \<^verbatim>\<open>PS_BPF_BOOTP\<close>, whichever protocol the worker
  was started for, and writes the payload to the raw handle with the worker's own
  protocol; every other command gives -1 with \<^verbatim>\<open>EINVAL\<close> and no write.\<close>

theorem recvmsgcb_accepts_any_frame_command:
  "ps_bpf_recvmsgcb c bpf_send psp psm msg =
     (if (ARP c \<and> ps_cmd psm = PS_BPF_ARP c) \<or> ps_cmd psm = PS_BPF_BOOTP c
      then ((bpf_send \<lparr>raw_bpf = psp_bpf psp, raw_proto = psp_proto psp,
                raw_data = iov_base (msg_iov msg), raw_len = iov_len (msg_iov msg)\<rparr>, None),
            Some \<lparr>raw_bpf = psp_bpf psp, raw_proto = psp_proto psp,
                raw_data = iov_base (msg_iov msg), raw_len = iov_len (msg_iov msg)\<rparr>)
      else ((-1, Some EINVAL), None))"
  by (simp add: ps_bpf_recvmsgcb_def Let_def)

theorem recvmsgcb_accepts_any_frame_command_witness:
  "ps_bpf_recvmsgcb dhcpcd_build write_all arp_worker (start_cmd arp_key) frame_msg =
     ((-1, Some EINVAL), None) \<and>
   ps_bpf_recvmsgcb dhcpcd_build write_all arp_worker (recvbpf_psm arp_worker) frame_msg =
     ((3, None), Some \<lparr>raw_bpf = Some raw_handle, raw_proto = ETHERTYPE_ARP,
        raw_data = [8, 0, 6], raw_len = 3\<rparr>)"
  using recvmsgcb_accepts_any_frame_command [of dhcpcd_build write_all arp_worker
      "start_cmd arp_key" frame_msg]
    recvmsgcb_accepts_any_frame_command [of dhcpcd_build write_all arp_worker
      "recvbpf_psm arp_worker" frame_msg]
  by (simp add: start_cmd_def recvbpf_psm_def arp_worker_def arp_key_def dhcpcd_build_def
      frame_msg_def write_all_def)

text \<open>The claim as the spec words it asks for frame commands of the worker's own protocol
  only. The worker started for ARP is handed a BOOTP frame command: it writes the frame,
  with the ARP protocol, and reports no error.\<close>

theorem recvmsgcb_other_protocol_counterexample:
  "psi_cmd (psp_id arp_worker) = 5 \<and> psp_proto arp_worker = ETHERTYPE_ARP \<and>
   PS_BPF_BOOTP dhcpcd_build = 4 \<and>
   ps_bpf_recvmsgcb dhcpcd_build write_all arp_worker
     \<lparr>ps_cmd = PS_BPF_BOOTP dhcpcd_build, ps_id = arp_key\<rparr> frame_msg =
     ((3, None), Some \<lparr>raw_bpf = Some raw_handle, raw_proto = ETHERTYPE_ARP,
        raw_data = [8, 0, 6], raw_len = 3\<rparr>)"
  by (simp add: ps_bpf_recvmsgcb_def arp_worker_def arp_key_def dhcpcd_build_def
      frame_msg_def write_all_def)

subsection \<open>The injection path\<close>

text \<open>Claim C7. For every frame of bytes \<open>D\<close> and length \<open>L\<close>, the message \<^verbatim>\<open>ps_bpf_sendbootp\<close>
  and \<^verbatim>\<open>ps_bpf_sendarp\<close> build carries exactly \<open>D\<close> and \<open>L\<close>, with no flags before them, and
  the worker that receives it hands exactly \<open>D\<close> and \<open>L\<close> to the raw write.\<close>

theorem injection_path_exact:
  "(let m = ps_bpf_sendbootp c ctx ifp D L
    in sent_data m = D \<and> sent_len m = L \<and>
       snd (ps_bpf_recvmsgcb c bpf_send psp (sent_psm m) (delivered m)) =
         Some \<lparr>raw_bpf = psp_bpf psp, raw_proto = psp_proto psp, raw_data = D,
           raw_len = L\<rparr>) \<and>
   (ARP c \<longrightarrow>
      (\<exists>m. ps_bpf_sendarp c ctx ifp (Some ia) D L = Returns m \<and>
         sent_data m = D \<and> sent_len m = L \<and>
         snd (ps_bpf_recvmsgcb c bpf_send psp (sent_psm m) (delivered m)) =
           Some \<lparr>raw_bpf = psp_bpf psp, raw_proto = psp_proto psp, raw_data = D,
             raw_len = L\<rparr>))"
  by (simp add: ps_bpf_sendbootp_def ps_bpf_sendarp_def ps_bpf_send_def ps_bpf_recvmsgcb_def
      delivered_def Let_def)

theorem injection_path_exact_witness:
  "ARP dhcpcd_build \<and>
   (\<exists>m. ps_bpf_sendarp dhcpcd_build idle_ctx eth0 (Some 0xC0000205) [8, 0, 6] 3 = Returns m \<and>
      sent_data m = [8, 0, 6] \<and> sent_len m = 3 \<and>
      snd (ps_bpf_recvmsgcb dhcpcd_build write_all arp_worker (sent_psm m) (delivered m)) =
        Some \<lparr>raw_bpf = psp_bpf arp_worker, raw_proto = psp_proto arp_worker,
          raw_data = [8, 0, 6], raw_len = 3\<rparr>)"
proof -
  have arp: "ARP dhcpcd_build"
    by (simp add: dhcpcd_build_def)
  with injection_path_exact [of dhcpcd_build idle_ctx eth0 "[8, 0, 6]" 3 write_all arp_worker
      "0xC0000205"]
  show ?thesis
    by blast
qed

subsection \<open>Starting a worker\<close>

lemma workers_for_keys:
  "length (workers_for ctx k) = length (filter (\<lambda>x. x = k) (map psp_id (ps_processes ctx)))"
  by (simp add: workers_for_def filter_map comp_def)

lemma findprocess_workers:
  "ps_findprocess ctx k = None \<longleftrightarrow> workers_for ctx k = []"
  by (auto simp: ps_findprocess_def workers_for_def find_None_iff filter_empty_conv)

lemma keys_psp_modify:
  assumes "\<And>p. psp_id (f p) = psp_id p"
  shows "map psp_id (ps_processes (psp_modify i f ctx)) = map psp_id (ps_processes ctx)"
  by (simp add: psp_modify_def map_update assms list_update_same_conv)

lemma psp_id_cmd_copy_ifp: "psp_id (cmd_copy_ifp c iov p) = psp_id p"
  by (simp add: cmd_copy_ifp_def Let_def)

lemma psp_id_cmd_set_proto: "psp_id (cmd_set_proto c cmd p) = psp_id p"
  by (simp add: cmd_set_proto_def)

lemma keys_start_bpf:
  assumes "start (ps_bpf_start_bpf env i ctx) \<noteq> -1"
  shows "map psp_id (ps_processes (ctx_after (ps_bpf_start_bpf env i ctx))) =
           take 1 (drop i (map psp_id (ps_processes ctx)))"
proof (cases "take 1 (drop i (ps_processes ctx))")
  case Nil
  with assms show ?thesis by (simp add: ps_bpf_start_bpf_def)
next
  case (Cons psp rest)
  have k: "map psp_id (ps_processes (ps_freeprocesses i ctx)) =
      take 1 (drop i (map psp_id (ps_processes ctx)))"
    by (simp add: ps_freeprocesses_def take_map drop_map)
  show ?thesis
    using assms Cons
    by (auto simp: ps_bpf_start_bpf_def Let_def keys_psp_modify k
        split: option.splits if_splits)
qed

lemma keys_dostart:
  assumes "start (ps_dostart env i ctx) \<noteq> -1"
  shows "map psp_id (ps_processes (ctx_after (ps_dostart env i ctx))) =
           map psp_id (ps_processes ctx) \<or>
         map psp_id (ps_processes (ctx_after (ps_dostart env i ctx))) =
           take 1 (drop i (map psp_id (ps_processes ctx)))"
proof (cases "fork env")
  case Fork_failed
  with assms show ?thesis by (simp add: ps_dostart_def)
next
  case (Fork_parent pid fd)
  then show ?thesis by (simp add: ps_dostart_def keys_psp_modify)
next
  case (Fork_child pid fd)
  with assms have "start (ps_bpf_start_bpf env i
      (psp_modify i (\<lambda>p. p\<lparr>psp_pid := pid, psp_fd := fd\<rparr>) ctx)) \<noteq> -1"
    by (simp add: ps_dostart_def)
  from keys_start_bpf [OF this] Fork_child show ?thesis
    by (simp add: ps_dostart_def keys_psp_modify)
qed

lemma first_start_fresh:
  assumes none: "ps_findprocess ctx (ps_id psm) = None"
    and res: "cmd_result (ps_bpf_cmd c env ctx psm msg) = Returns (v, e)" and v: "v \<noteq> -1"
  shows "length (workers_for (cmd_ctx (ps_bpf_cmd c env ctx psm msg)) (ps_id psm)) = 1"
proof -
  let ?k = "ps_id psm"
  let ?cmd = "ps_cmd psm AND NOT (PS_START c OR PS_STOP c)"
  let ?i = "length (ps_processes ctx)"
  obtain ctx1 where new: "ps_newprocess (alloc_ok env) ctx ?k = Some (ctx1, ?i)"
    and k1: "map psp_id (ps_processes ctx1) = map psp_id (ps_processes ctx) @ [?k]"
    using res v none
    by (auto simp: ps_bpf_cmd_def Let_def ps_newprocess_def split: if_splits)
  let ?ctx2 = "psp_modify ?i (cmd_set_proto c ?cmd)
      (psp_modify ?i (cmd_copy_ifp c (msg_iov msg)) ctx1)"
  have k2: "map psp_id (ps_processes ?ctx2) = map psp_id (ps_processes ctx) @ [?k]"
    by (simp add: keys_psp_modify psp_id_cmd_copy_ifp psp_id_cmd_set_proto k1)
  have st: "start (ps_dostart env ?i ?ctx2) \<noteq> -1"
    and out: "cmd_ctx (ps_bpf_cmd c env ctx psm msg) = ctx_after (ps_dostart env ?i ?ctx2)"
    using res v none new
    by (auto simp: ps_bpf_cmd_def Let_def split: if_splits)
  have zero: "filter (\<lambda>x. x = ?k) (map psp_id (ps_processes ctx)) = []"
    using none by (simp add: findprocess_workers workers_for_def filter_map comp_def)
  define ks where "ks = map psp_id (ps_processes (ctx_after (ps_dostart env ?i ?ctx2)))"
  from keys_dostart [OF st] have "ks = map psp_id (ps_processes ctx) @ [?k] \<or> ks = [?k]"
    unfolding ks_def k2 by simp
  with zero have "length (filter (\<lambda>x. x = ?k) ks) = 1"
    by auto
  then show ?thesis
    unfolding out workers_for_keys ks_def .
qed

lemma first_start_value:
  "cmd_result (ps_bpf_cmd dhcpcd_build parent_env idle_ctx (start_cmd bootp_key) snapshot_msg) =
     Returns (1234, None)"
  by (simp add: ps_bpf_cmd_def Let_def dhcpcd_build_def parent_env_def idle_ctx_def
      start_cmd_def bootp_key_def snapshot_msg_def ps_findprocess_def ps_newprocess_def
      ps_dostart_def)

text \<open>Claim C3. For every routing key, after a START command that did not fail, a second
  START command for the key returns 1, the "already running" value, and leaves the context
  as it is; the context then holds exactly one worker record for the key (given that it
  held at most one before the first command).\<close>

theorem start_twice_one_worker:
  assumes first: "cmd_result (ps_bpf_cmd c env1 ctx psm1 msg1) = Returns (v, e)"
    and v: "v \<noteq> -1"
    and once: "length (workers_for ctx (ps_id psm1)) \<le> 1"
    and same: "ps_id psm2 = ps_id psm1"
    and tag: "(ARP c \<and> ps_cmd psm2 AND NOT (PS_START c OR PS_STOP c) = PS_BPF_ARP c) \<or>
              ps_cmd psm2 AND NOT (PS_START c OR PS_STOP c) = PS_BPF_BOOTP c"
    and bit: "ps_cmd psm2 AND PS_START c \<noteq> 0"
  shows "cmd_result (ps_bpf_cmd c env2 (cmd_ctx (ps_bpf_cmd c env1 ctx psm1 msg1)) psm2 msg2) =
           Returns (1, None) \<and>
         cmd_ctx (ps_bpf_cmd c env2 (cmd_ctx (ps_bpf_cmd c env1 ctx psm1 msg1)) psm2 msg2) =
           cmd_ctx (ps_bpf_cmd c env1 ctx psm1 msg1) \<and>
         length (workers_for (cmd_ctx (ps_bpf_cmd c env1 ctx psm1 msg1)) (ps_id psm1)) = 1"
proof -
  let ?ctx1 = "cmd_ctx (ps_bpf_cmd c env1 ctx psm1 msg1)"
  have one: "length (workers_for ?ctx1 (ps_id psm1)) = 1"
  proof (cases "ps_findprocess ctx (ps_id psm1)")
    case None
    from first_start_fresh [OF None first v] show ?thesis .
  next
    case (Some p)
    then have "?ctx1 = ctx"
      using first v by (auto simp: ps_bpf_cmd_def Let_def split: if_splits)
    moreover from Some have "workers_for ctx (ps_id psm1) \<noteq> []"
      using findprocess_workers [of ctx "ps_id psm1"] by simp
    ultimately show ?thesis
      using once by (cases "workers_for ctx (ps_id psm1)") auto
  qed
  then have "ps_findprocess ?ctx1 (ps_id psm2) \<noteq> None"
    using findprocess_workers [of ?ctx1 "ps_id psm1"] same by auto
  then show ?thesis
    using one tag bit by (auto simp: ps_bpf_cmd_def [of c env2] Let_def)
qed

theorem start_twice_one_worker_witness:
  "cmd_result (ps_bpf_cmd dhcpcd_build parent_env idle_ctx (start_cmd bootp_key) snapshot_msg) =
     Returns (1234, None) \<and>
   length (workers_for idle_ctx (ps_id (start_cmd bootp_key))) \<le> 1 \<and>
   ps_cmd (start_cmd bootp_key) AND NOT (PS_START dhcpcd_build OR PS_STOP dhcpcd_build) =
     PS_BPF_BOOTP dhcpcd_build \<and>
   ps_cmd (start_cmd bootp_key) AND PS_START dhcpcd_build \<noteq> 0 \<and>
   cmd_result (ps_bpf_cmd dhcpcd_build parent_env
       (cmd_ctx (ps_bpf_cmd dhcpcd_build parent_env idle_ctx (start_cmd bootp_key)
          snapshot_msg))
       (start_cmd bootp_key) snapshot_msg) = Returns (1, None) \<and>
   cmd_ctx (ps_bpf_cmd dhcpcd_build parent_env
       (cmd_ctx (ps_bpf_cmd dhcpcd_build parent_env idle_ctx (start_cmd bootp_key)
          snapshot_msg))
       (start_cmd bootp_key) snapshot_msg) =
     cmd_ctx (ps_bpf_cmd dhcpcd_build parent_env idle_ctx (start_cmd bootp_key) snapshot_msg) \<and>
   length (workers_for
       (cmd_ctx (ps_bpf_cmd dhcpcd_build parent_env idle_ctx (start_cmd bootp_key)
          snapshot_msg))
       (ps_id (start_cmd bootp_key))) = 1"
proof -
  have v: "(1234::int) \<noteq> -1"
    by simp
  have once: "length (workers_for idle_ctx (ps_id (start_cmd bootp_key))) \<le> 1"
    by (simp add: workers_for_def idle_ctx_def)
  have tag: "ps_cmd (start_cmd bootp_key) AND
      NOT (PS_START dhcpcd_build OR PS_STOP dhcpcd_build) = PS_BPF_BOOTP dhcpcd_build"
    by (simp add: start_cmd_def bootp_key_def dhcpcd_build_def)
  then have tags: "(ARP dhcpcd_build \<and> ps_cmd (start_cmd bootp_key) AND
      NOT (PS_START dhcpcd_build OR PS_STOP dhcpcd_build) = PS_BPF_ARP dhcpcd_build) \<or>
      ps_cmd (start_cmd bootp_key) AND
      NOT (PS_START dhcpcd_build OR PS_STOP dhcpcd_build) = PS_BPF_BOOTP dhcpcd_build"
    by simp
  have bit: "ps_cmd (start_cmd bootp_key) AND PS_START dhcpcd_build \<noteq> 0"
    by (simp add: start_cmd_def bootp_key_def dhcpcd_build_def)
  from start_twice_one_worker [OF first_start_value v once refl tags bit,
      where ?env2.0 = parent_env and ?msg2.0 = snapshot_msg]
    first_start_value once tag bit
  show ?thesis
    by blast
qed

text \<open>Claim C1, as the code has it. For a START command with a recognised tag whose payload
  length differs from the size of an interface: when the key has a worker, the command
  returns 1 and the length is not looked at; when the allocation fails, it returns -1;
  otherwise \<^verbatim>\<open>ps_newprocess\<close> has added the record for the key before the length is
  asserted at line 225, and the assertion stops the process with that record in the
  queue, before anything else is written to it and before \<^verbatim>\<open>ps_dostart\<close> is called.\<close>

theorem start_length_mismatch_aborts:
  assumes "(ARP c \<and> ps_cmd psm AND NOT (PS_START c OR PS_STOP c) = PS_BPF_ARP c) \<or>
           ps_cmd psm AND NOT (PS_START c OR PS_STOP c) = PS_BPF_BOOTP c"
    and "ps_cmd psm AND PS_START c \<noteq> 0"
    and "iov_len (msg_iov msg) \<noteq> sizeof_interface c"
  shows "(case ps_findprocess ctx (ps_id psm) of
            Some psp \<Rightarrow>
              cmd_result (ps_bpf_cmd c env ctx psm msg) = Returns (1, None) \<and>
              cmd_ctx (ps_bpf_cmd c env ctx psm msg) = ctx
          | None \<Rightarrow>
              if alloc_ok env
              then cmd_result (ps_bpf_cmd c env ctx psm msg) = Assert_failed \<and>
                   ps_newprocess True ctx (ps_id psm) =
                     Some (cmd_ctx (ps_bpf_cmd c env ctx psm msg), length (ps_processes ctx))
              else cmd_result (ps_bpf_cmd c env ctx psm msg) = Returns (-1, None) \<and>
                   cmd_ctx (ps_bpf_cmd c env ctx psm msg) = ctx)"
  using assms
  by (auto simp: ps_bpf_cmd_def Let_def ps_newprocess_def split: option.splits)

theorem start_length_mismatch_aborts_witness:
  "ps_cmd (start_cmd bootp_key) AND NOT (PS_START dhcpcd_build OR PS_STOP dhcpcd_build) =
     PS_BPF_BOOTP dhcpcd_build \<and>
   ps_cmd (start_cmd bootp_key) AND PS_START dhcpcd_build \<noteq> 0 \<and>
   iov_len (msg_iov short_msg) \<noteq> sizeof_interface dhcpcd_build \<and>
   ps_findprocess idle_ctx (ps_id (start_cmd bootp_key)) = None \<and> alloc_ok parent_env \<and>
   cmd_result (ps_bpf_cmd dhcpcd_build parent_env idle_ctx (start_cmd bootp_key) short_msg) =
     Assert_failed \<and>
   ps_newprocess True idle_ctx (ps_id (start_cmd bootp_key)) =
     Some (cmd_ctx (ps_bpf_cmd dhcpcd_build parent_env idle_ctx (start_cmd bootp_key)
        short_msg), length (ps_processes idle_ctx))"
proof -
  have tag: "ps_cmd (start_cmd bootp_key) AND
      NOT (PS_START dhcpcd_build OR PS_STOP dhcpcd_build) = PS_BPF_BOOTP dhcpcd_build"
    by (simp add: start_cmd_def bootp_key_def dhcpcd_build_def)
  then have tags: "(ARP dhcpcd_build \<and> ps_cmd (start_cmd bootp_key) AND
      NOT (PS_START dhcpcd_build OR PS_STOP dhcpcd_build) = PS_BPF_ARP dhcpcd_build) \<or>
      ps_cmd (start_cmd bootp_key) AND
      NOT (PS_START dhcpcd_build OR PS_STOP dhcpcd_build) = PS_BPF_BOOTP dhcpcd_build"
    by simp
  have bit: "ps_cmd (start_cmd bootp_key) AND PS_START dhcpcd_build \<noteq> 0"
    by (simp add: start_cmd_def bootp_key_def dhcpcd_build_def)
  have len: "iov_len (msg_iov short_msg) \<noteq> sizeof_interface dhcpcd_build"
    by (simp add: short_msg_def dhcpcd_build_def)
  have none: "ps_findprocess idle_ctx (ps_id (start_cmd bootp_key)) = None"
    by (simp add: ps_findprocess_def idle_ctx_def)
  have ok: "alloc_ok parent_env"
    by (simp add: parent_env_def)
  from start_length_mismatch_aborts [OF tags bit len, where ctx = idle_ctx and env = parent_env]
  have "cmd_result (ps_bpf_cmd dhcpcd_build parent_env idle_ctx (start_cmd bootp_key)
        short_msg) = Assert_failed \<and>
      ps_newprocess True idle_ctx (ps_id (start_cmd bootp_key)) =
        Some (cmd_ctx (ps_bpf_cmd dhcpcd_build parent_env idle_ctx (start_cmd bootp_key)
          short_msg), length (ps_processes idle_ctx))"
    by (simp add: none ok)
  with tag bit len none ok show ?thesis
    by blast
qed

text \<open>The claim as the spec words it has the command rejected before any worker record is
  made, the key-to-worker mapping unchanged. A BOOTP START command with a payload of three
  bytes, for a supervisor with no worker: the assertion stops the process, and the queue,
  empty before, holds a record for the key.\<close>

theorem start_length_mismatch_counterexample:
  "iov_len (msg_iov short_msg) = 3 \<and> sizeof_interface dhcpcd_build = 8 \<and>
   ps_processes idle_ctx = [] \<and>
   cmd_result (ps_bpf_cmd dhcpcd_build parent_env idle_ctx (start_cmd bootp_key) short_msg) =
     Assert_failed \<and>
   map psp_id (ps_processes
     (cmd_ctx (ps_bpf_cmd dhcpcd_build parent_env idle_ctx (start_cmd bootp_key) short_msg))) =
     [bootp_key] \<and>
   cmd_ctx (ps_bpf_cmd dhcpcd_build parent_env idle_ctx (start_cmd bootp_key) short_msg) \<noteq>
     idle_ctx"
  by (simp add: ps_bpf_cmd_def Let_def dhcpcd_build_def parent_env_def idle_ctx_def
      start_cmd_def bootp_key_def short_msg_def ps_findprocess_def ps_newprocess_def)

subsection \<open>The capture loop\<close>

lemma loop_eof:
  "cap_flags st AND BPF_EOF c \<noteq> 0 \<Longrightarrow> recvbpf_loop c env ctx psp k st = Some st"
  by (subst recvbpf_loop.simps) simp

lemma loop_end_read:
  assumes "cap_flags st AND BPF_EOF c = 0" and "\<not> yields_frame env k"
  shows "\<exists>st'. recvbpf_loop c env ctx psp k st = Some st' \<and> cap_sent st' = cap_sent st"
  using assms by (subst recvbpf_loop.simps) (auto simp: Let_def yields_frame_def)

lemma loop_step:
  assumes "cap_flags st AND BPF_EOF c = 0" and "yields_frame env k" and "send_ok env k"
  shows "recvbpf_loop c env ctx psp k st =
           recvbpf_loop c env ctx psp (Suc k)
             (st\<lparr>cap_flags := snd (snd (bpf_read env k)),
                 cap_sent := cap_sent st @ [forwarded c env ctx psp k]\<rparr>)"
  using assms
  by (subst recvbpf_loop.simps) (simp add: Let_def yields_frame_def send_ok_def forwarded_def)

lemma loop_run:
  assumes "cap_flags st AND BPF_EOF c = 0"
    and "k < n \<or> \<not> yields_frame env n"
    and "k \<le> n"
    and "\<forall>i. k \<le> i \<and> i < n \<longrightarrow> yields_frame env i \<and> send_ok env i"
    and "\<forall>i. k \<le> i \<and> Suc i < n \<longrightarrow> \<not> read_sets_eof c env i"
    and "(0 < n \<and> read_sets_eof c env (n - 1)) \<or> \<not> yields_frame env n"
  shows "\<exists>st'. recvbpf_loop c env ctx psp k st = Some st' \<and>
           cap_sent st' = cap_sent st @ map (forwarded c env ctx psp) [k..<n]"
  using assms
proof (induction "n - k" arbitrary: k st)
  case 0
  then have "k = n" by simp
  with 0 loop_end_read [of st c env n ctx psp] show ?case by auto
next
  case (Suc d)
  then have kn: "k < n" by simp
  let ?st1 = "st\<lparr>cap_flags := snd (snd (bpf_read env k)),
                 cap_sent := cap_sent st @ [forwarded c env ctx psp k]\<rparr>"
  from Suc.prems kn
  have step: "recvbpf_loop c env ctx psp k st = recvbpf_loop c env ctx psp (Suc k) ?st1"
    by (intro loop_step) auto
  have up: "[k..<n] = k # [Suc k..<n]"
    using kn by (simp add: upt_conv_Cons)
  show ?case
  proof (cases "read_sets_eof c env k")
    case True
    with Suc.prems(5) kn have "Suc k = n"
      by (metis Suc_lessI le_refl)
    moreover from True have "recvbpf_loop c env ctx psp (Suc k) ?st1 = Some ?st1"
      by (intro loop_eof) (simp add: read_sets_eof_def)
    ultimately show ?thesis
      using step up by simp
  next
    case False
    have d: "d = n - Suc k" using Suc.hyps(2) by simp
    have clear: "cap_flags ?st1 AND BPF_EOF c = 0"
      using False by (simp add: read_sets_eof_def)
    have ending: "Suc k < n \<or> \<not> yields_frame env n"
    proof (cases "Suc k < n")
      case False
      with kn have "n - 1 = k" by simp
      with Suc.prems(6) \<open>\<not> read_sets_eof c env k\<close> show ?thesis by simp
    qed simp
    from Suc.hyps(1) [OF d clear ending] Suc.prems kn
    obtain st' where "recvbpf_loop c env ctx psp (Suc k) ?st1 = Some st'"
      and "cap_sent st' = cap_sent ?st1 @ map (forwarded c env ctx psp) [Suc k..<n]"
      by auto
    then show ?thesis
      using step up by simp
  qed
qed

text \<open>Claim C5, as the code has it. When the handle yields the frames \<open>F1..Fn\<close> and then
  the end of input, the end being a read of length 0, a failed read, or the end-of-stream
  flag that the read of \<open>Fn\<close> leaves set, when no earlier read leaves that flag set and
  every send succeeds, one run of \<^verbatim>\<open>ps_bpf_recvbpf\<close> returns, having sent exactly the \<open>n\<close>
  messages of \<open>F1..Fn\<close> in that order and nothing after them. The flag is cleared on entry:
  a handle that comes with the flag set runs as the same handle without it.\<close>

theorem capture_loop_forwards_in_order:
  assumes "\<forall>i<n. yields_frame env i \<and> send_ok env i"
    and "\<forall>i. Suc i < n \<longrightarrow> \<not> read_sets_eof c env i"
    and "(0 < n \<and> read_sets_eof c env (n - 1)) \<or> \<not> yields_frame env n"
  shows "(\<exists>st. ps_bpf_recvbpf c env ctx psp b = Some st \<and>
            cap_sent st = map (forwarded c env ctx psp) [0..<n]) \<and>
         ps_bpf_recvbpf c env ctx psp (b\<lparr>bpf_flags := bpf_flags b OR BPF_EOF c\<rparr>) =
           ps_bpf_recvbpf c env ctx psp b"
proof -
  let ?st0 = "\<lparr>cap_flags = bpf_flags b AND NOT (BPF_EOF c), cap_sent = [], cap_log = []\<rparr>"
  have "cap_flags ?st0 AND BPF_EOF c = 0"
    by (simp add: clear_entry)
  moreover have "0 < n \<or> \<not> yields_frame env n"
    using assms(3) by auto
  ultimately have "\<exists>st'. recvbpf_loop c env ctx psp 0 ?st0 = Some st' \<and>
      cap_sent st' = cap_sent ?st0 @ map (forwarded c env ctx psp) [0..<n]"
    using assms by (intro loop_run) auto
  then show ?thesis
    by (simp add: ps_bpf_recvbpf_def or_entry)
qed

lemma drained_reads:
  "yields_frame drained_env 0" "yields_frame drained_env 1" "\<not> yields_frame drained_env 2"
  "send_ok drained_env 0" "send_ok drained_env 1"
  "\<not> read_sets_eof dhcpcd_build drained_env 0"
  by (simp_all add: yields_frame_def send_ok_def read_sets_eof_def drained_env_def
      two_frames_def sends_pass_def dhcpcd_build_def)

theorem capture_loop_forwards_in_order_witness:
  "yields_frame drained_env 0 \<and> send_ok drained_env 0 \<and>
   yields_frame drained_env 1 \<and> send_ok drained_env 1 \<and>
   \<not> read_sets_eof dhcpcd_build drained_env 0 \<and> \<not> yields_frame drained_env 2 \<and>
   bpf_flags raw_handle AND BPF_EOF dhcpcd_build = 1 \<and>
   (\<exists>st. ps_bpf_recvbpf dhcpcd_build drained_env idle_ctx bootp_worker raw_handle = Some st \<and>
      map sent_data (cap_sent st) = [[0, 0, 0, 0, 1, 2, 3], [0, 0, 0, 0, 4, 5]])"
proof -
  have frames: "\<forall>i<2. yields_frame drained_env i \<and> send_ok drained_env i"
    using drained_reads by (simp add: less_Suc_eq numeral_2_eq_2)
  have clear: "\<forall>i. Suc i < 2 \<longrightarrow> \<not> read_sets_eof dhcpcd_build drained_env i"
    using drained_reads by simp
  have ending: "(0 < (2::nat) \<and> read_sets_eof dhcpcd_build drained_env (2 - 1)) \<or>
      \<not> yields_frame drained_env 2"
    using drained_reads by simp
  have flag: "bpf_flags raw_handle AND BPF_EOF dhcpcd_build = 1"
    by (simp add: raw_handle_def dhcpcd_build_def)
  have msgs: "map sent_data (map (forwarded dhcpcd_build drained_env idle_ctx bootp_worker)
      [0..<2]) = [[0, 0, 0, 0, 1, 2, 3], [0, 0, 0, 0, 4, 5]]"
    by (simp add: upt_rec numeral_2_eq_2 forwarded_def recvbpf_send_def drained_env_def
        two_frames_def dhcpcd_build_def store_flags_def le_bytes_def)
  from capture_loop_forwards_in_order [OF frames clear ending,
      where ctx = idle_ctx and psp = bootp_worker and b = raw_handle]
  obtain st where "ps_bpf_recvbpf dhcpcd_build drained_env idle_ctx bootp_worker raw_handle =
      Some st"
    and "cap_sent st = map (forwarded dhcpcd_build drained_env idle_ctx bootp_worker) [0..<2]"
    by blast
  with msgs have "\<exists>st. ps_bpf_recvbpf dhcpcd_build drained_env idle_ctx bootp_worker
      raw_handle = Some st \<and>
      map sent_data (cap_sent st) = [[0, 0, 0, 0, 1, 2, 3], [0, 0, 0, 0, 4, 5]]"
    by simp
  with drained_reads flag show ?thesis
    by blast
qed

text \<open>The claim as the spec words it counts a read of length 0 and a failed read as the
  only ends. The handle yields two frames and then a read of length 0, every send
  succeeds, and the first read leaves the end-of-stream flag set: the run sends the first
  frame and returns, the second frame unread.\<close>

theorem capture_loop_eof_flag_counterexample:
  "yields_frame eof_env 0 \<and> send_ok eof_env 0 \<and> yields_frame eof_env 1 \<and>
   send_ok eof_env 1 \<and> \<not> yields_frame eof_env 2 \<and>
   ps_bpf_recvbpf dhcpcd_build eof_env idle_ctx bootp_worker raw_handle =
     Some \<lparr>cap_flags = 1,
       cap_sent = [forwarded dhcpcd_build eof_env idle_ctx bootp_worker 0],
       cap_log = []\<rparr>"
proof -
  have "recvbpf_loop dhcpcd_build eof_env idle_ctx bootp_worker 0
      \<lparr>cap_flags = 0, cap_sent = [], cap_log = []\<rparr> =
    recvbpf_loop dhcpcd_build eof_env idle_ctx bootp_worker (Suc 0)
      \<lparr>cap_flags = 1, cap_sent = [forwarded dhcpcd_build eof_env idle_ctx bootp_worker 0],
        cap_log = []\<rparr>"
    by (subst recvbpf_loop.simps)
      (simp add: Let_def eof_env_def two_frames_eof_def sends_pass_def forwarded_def
        dhcpcd_build_def)
  also have "\<dots> = Some \<lparr>cap_flags = 1,
      cap_sent = [forwarded dhcpcd_build eof_env idle_ctx bootp_worker 0], cap_log = []\<rparr>"
    by (subst recvbpf_loop.simps) (simp add: dhcpcd_build_def)
  finally show ?thesis
    by (simp add: ps_bpf_recvbpf_def raw_handle_def dhcpcd_build_def yields_frame_def
        send_ok_def eof_env_def two_frames_eof_def sends_pass_def)
qed

text \<open>Claim C8. In the capture loop a send that fails (returns -1) stops the loop in every
  case: the run returns after that pass. The failure is logged exactly when \<^verbatim>\<open>errno\<close> is
  not \<^verbatim>\<open>ECONNRESET\<close>.\<close>

theorem send_failure_stops_loop:
  assumes "cap_flags st AND BPF_EOF c = 0"
    and "yields_frame env k"
    and "ps_sendpsmdata env k = (-1, e)"
  shows "recvbpf_loop c env ctx psp k st =
           Some \<lparr>cap_flags = snd (snd (bpf_read env k)),
                 cap_sent = cap_sent st @ [forwarded c env ctx psp k],
                 cap_log = cap_log st @
                   (if e \<noteq> ECONNRESET then [''ps_bpf_recvbpf''] else [])\<rparr>"
  using assms
  by (subst recvbpf_loop.simps) (simp add: Let_def yields_frame_def forwarded_def)

theorem send_failure_stops_loop_witness:
  "yields_frame (broken_env ECONNRESET) 0 \<and> yields_frame (broken_env (Errno 5)) 0 \<and>
   ps_sendpsmdata (broken_env ECONNRESET) 0 = (-1, ECONNRESET) \<and>
   ps_sendpsmdata (broken_env (Errno 5)) 0 = (-1, Errno 5) \<and>
   ps_bpf_recvbpf dhcpcd_build (broken_env ECONNRESET) idle_ctx bootp_worker raw_handle =
     Some \<lparr>cap_flags = 0,
       cap_sent = [forwarded dhcpcd_build (broken_env ECONNRESET) idle_ctx bootp_worker 0],
       cap_log = []\<rparr> \<and>
   ps_bpf_recvbpf dhcpcd_build (broken_env (Errno 5)) idle_ctx bootp_worker raw_handle =
     Some \<lparr>cap_flags = 0,
       cap_sent = [forwarded dhcpcd_build (broken_env (Errno 5)) idle_ctx bootp_worker 0],
       cap_log = [''ps_bpf_recvbpf'']\<rparr>"
proof -
  let ?st0 = "\<lparr>cap_flags = bpf_flags raw_handle AND NOT (BPF_EOF dhcpcd_build),
      cap_sent = [], cap_log = []\<rparr>"
  have clear: "cap_flags ?st0 AND BPF_EOF dhcpcd_build = 0"
    by (simp add: clear_entry)
  have frame: "yields_frame (broken_env e) 0" for e
    by (simp add: yields_frame_def broken_env_def two_frames_def)
  have fails: "ps_sendpsmdata (broken_env e) 0 = (-1, e)" for e
    by (simp add: broken_env_def sends_fail_def)
  have flags: "snd (snd (bpf_read (broken_env e) 0)) = 0" for e
    by (simp add: broken_env_def two_frames_def)
  from send_failure_stops_loop [OF clear frame fails, of ECONNRESET idle_ctx bootp_worker]
    send_failure_stops_loop [OF clear frame fails, of "Errno 5" idle_ctx bootp_worker]
    frame fails
  show ?thesis
    by (simp add: ps_bpf_recvbpf_def flags)
qed

end
